theory Spec2Isabelle
  imports
    Main
    "HOL-Library.Char_ord"
    "HOL-Library.List_Lexorder"
    "HOL-Library.Multiset"
begin

section \<open>Preferences actions of the workbench (preferencesActions.ts)\<close>

text \<open>
  The file defines six \<open>Action\<close> subclasses. Each one delegates to injected services
  (preferences, workspace context, command dispatch, mode registry, quick open). The
  services are not part of the file: every service is a record holding, for each method
  the file calls, what that method answers. What a \<open>run\<close> does to the outside is the
  list of service calls it makes, in order, together with the promise it returns.
\<close>

subsection \<open>Promises and the values they carry\<close>

text \<open>
  A \<open>TPromise\<close> either resolves to a value or is rejected with a reason. The file
  never rejects a promise itself and never catches a rejection: a rejection of a
  collaborator travels through every \<open>then\<close> untouched.
\<close>

datatype 'a TPromise = Resolved 'a | Rejected string

text \<open>
  \<open>run\<close> returns \<open>TPromise<any>\<close>: the literal \<open>null\<close>, the literal
  \<open>undefined\<close>, or whatever the delegate resolved to.
\<close>

datatype 'r any_value = Null | Undefined | Value 'r

subsection \<open>The collaborators\<close>

text \<open>
  The interfaces are imported. Each record holds the members the file reads: of a
  workspace folder its \<open>uri\<close>, of a mode its language identifier, of a language
  identifier its \<open>language\<close>. \<open>URI\<close> is a type parameter.
\<close>

record 'uri IWorkspaceFolder =
  uri :: 'uri

record LanguageIdentifier =
  language :: string

record IMode =
  getLanguageIdentifier :: LanguageIdentifier

record 'uri IFilePickOpenEntry =
  label :: string
  resource :: "'uri option"
  description :: string

record IPickOptions =
  placeHolder :: string

record ('uri, 'r) IPreferencesService =
  openGlobalSettings :: "'r TPromise"
  openGlobalKeybindingSettings :: "bool \<Rightarrow> 'r TPromise"
  openWorkspaceSettings :: "'r TPromise"
  openFolderSettings :: "'uri \<Rightarrow> 'r TPromise"
  configureSettingsForLanguage :: "string \<Rightarrow> 'r TPromise"

record 'uri ICommandService =
  executeCommand :: "string \<Rightarrow> 'uri IWorkspaceFolder option TPromise"

text \<open>
  The mode registry. A JavaScript method can answer \<open>null\<close> or \<open>undefined\<close>
  where its type says string or array, and the file guards against that for the
  extension and file name lists (\<open>extensions && extensions.length\<close>): these answers
  are options.
\<close>

record IModeService =
  getRegisteredLanguageNames :: "string list"
  getModeIdForLanguageName :: "string \<Rightarrow> string option"
  getExtensions :: "string \<Rightarrow> string list option"
  getFilenames :: "string \<Rightarrow> string list option"
  getOrCreateModeByLanguageName :: "string \<Rightarrow> IMode TPromise"

record 'uri IQuickOpenService =
  pick :: "'uri IFilePickOpenEntry list \<Rightarrow> IPickOptions \<Rightarrow> 'uri IFilePickOpenEntry option TPromise"

text \<open>The calls a \<open>run\<close> makes on services that act on the outside, in order.\<close>

datatype 'uri service_call =
    Call_openGlobalSettings
  | Call_openGlobalKeybindingSettings bool
  | Call_openWorkspaceSettings
  | Call_openFolderSettings 'uri
  | Call_configureSettingsForLanguage string
  | Call_executeCommand string
  | Call_pick "'uri IFilePickOpenEntry list" IPickOptions
  | Call_getOrCreateModeByLanguageName string

text \<open>
  \<open>p.then(f)\<close>: when \<open>p\<close> resolves, \<open>f\<close> runs on its value and the calls of
  \<open>f\<close> follow those made so far; when \<open>p\<close> is rejected, \<open>f\<close> never runs.
\<close>

fun then_promise ::
  "'c list \<times> 'a TPromise \<Rightarrow> ('a \<Rightarrow> 'c list \<times> 'b TPromise) \<Rightarrow> 'c list \<times> 'b TPromise"
where
  "then_promise (calls, Resolved v) f = (calls @ fst (f v), snd (f v))"
| "then_promise (calls, Rejected e) f = (calls, Rejected e)"

subsection \<open>JavaScript strings\<close>

text \<open>
  A string is a list of code units; the model keeps the code units below 256.
  \<open>Array.prototype.sort()\<close> without a comparator orders strings by their code units,
  which is the lexicographic order of \<open>List_Lexorder\<close> over the order of
  \<open>Char_ord\<close>. \<open>String.prototype.toLowerCase()\<close> maps \<open>A-Z\<close> and the Latin-1
  capitals (\<open>0xC0-0xDE\<close> but the multiplication sign \<open>0xD7\<close>) 32 code units up.
\<close>

definition toLowerCase_char :: "char \<Rightarrow> char" where
  "toLowerCase_char c =
     (let n = (of_char c :: nat)
      in if (65 \<le> n \<and> n \<le> 90) \<or> (192 \<le> n \<and> n \<le> 214) \<or> (216 \<le> n \<and> n \<le> 222)
         then char_of (n + 32) else c)"

definition toLowerCase :: "string \<Rightarrow> string" where
  "toLowerCase s = map toLowerCase_char s"

subsection \<open>ConfigureLanguageBasedSettingsAction\<close>

text \<open>
  \<open>nls.localize\<close> and \<open>URI.file\<close> are imported, not defined in the file: they
  are the parameters \<open>localize\<close> (key, default message, arguments) and \<open>URI_file\<close>.
\<close>

text \<open>
  The fake resource of a language (lines 166-175): the first extension when the list
  is there and not empty, else the first file name when that list is there and not
  empty, else nothing (\<open>fakeResource\<close> stays \<open>undefined\<close>).
\<close>

definition fakeResource :: "(string \<Rightarrow> 'uri) \<Rightarrow> IModeService \<Rightarrow> string \<Rightarrow> 'uri option" where
  "fakeResource URI_file modeService lang =
     (case getExtensions modeService lang of
        Some (e # es) \<Rightarrow> Some (URI_file e)
      | _ \<Rightarrow>
        (case getFilenames modeService lang of
           Some (f # fs) \<Rightarrow> Some (URI_file f)
         | _ \<Rightarrow> None))"

text \<open>The entry built for one language by the callback of \<open>map\<close> (lines 163-181).\<close>

definition languagePick ::
  "(string \<Rightarrow> string \<Rightarrow> string option list \<Rightarrow> string) \<Rightarrow> (string \<Rightarrow> 'uri) \<Rightarrow> IModeService \<Rightarrow>
   string \<Rightarrow> 'uri IFilePickOpenEntry"
where
  "languagePick localize URI_file modeService lang =
     \<lparr> label = lang,
       resource = fakeResource URI_file modeService lang,
       description =
         localize ''languageDescriptionConfigured'' ''({0})''
           [getModeIdForLanguageName modeService (toLowerCase lang)] \<rparr>"

text \<open>\<open>languages.sort().map(...)\<close> (lines 162-181).\<close>

definition picks ::
  "(string \<Rightarrow> string \<Rightarrow> string option list \<Rightarrow> string) \<Rightarrow> (string \<Rightarrow> 'uri) \<Rightarrow> IModeService \<Rightarrow>
   'uri IFilePickOpenEntry list"
where
  "picks localize URI_file modeService =
     map (languagePick localize URI_file modeService)
       (sort (getRegisteredLanguageNames modeService))"

text \<open>
  \<open>run\<close> (lines 161-192): show the picker; on a selection resolve the mode of the
  selected label and configure the settings of its language; on no selection
  return \<open>undefined\<close>.
\<close>

definition ConfigureLanguageBasedSettingsAction_run ::
  "(string \<Rightarrow> string \<Rightarrow> string option list \<Rightarrow> string) \<Rightarrow> (string \<Rightarrow> 'uri) \<Rightarrow> IModeService \<Rightarrow>
   'uri IQuickOpenService \<Rightarrow> ('uri, 'r) IPreferencesService \<Rightarrow>
   'uri service_call list \<times> 'r any_value TPromise"
where
  "ConfigureLanguageBasedSettingsAction_run localize URI_file modeService quickOpenService
       preferencesService =
     (let ps = picks localize URI_file modeService;
          options = \<lparr> placeHolder = localize ''pickLanguage'' ''Select Language'' [] \<rparr>
      in then_promise ([Call_pick ps options], pick quickOpenService ps options)
           (\<lambda>p. case p of
              Some selected \<Rightarrow>
                then_promise
                  ([Call_getOrCreateModeByLanguageName (label selected)],
                   getOrCreateModeByLanguageName modeService (label selected))
                  (\<lambda>mode.
                     ([Call_configureSettingsForLanguage
                         (language (getLanguageIdentifier mode))],
                      map_TPromise Value
                        (configureSettingsForLanguage preferencesService
                           (language (getLanguageIdentifier mode)))))
            | None \<Rightarrow> ([], Resolved Undefined)))"

subsection \<open>The actions without state\<close>

text \<open>Lines 32-34, 50-52 and 68-70: one call on the preferences service each.\<close>

definition OpenGlobalSettingsAction_run ::
  "('uri, 'r) IPreferencesService \<Rightarrow> 'uri service_call list \<times> 'r any_value TPromise"
where
  "OpenGlobalSettingsAction_run preferencesService =
     ([Call_openGlobalSettings], map_TPromise Value (openGlobalSettings preferencesService))"

definition OpenGlobalKeybindingsAction_run ::
  "('uri, 'r) IPreferencesService \<Rightarrow> 'uri service_call list \<times> 'r any_value TPromise"
where
  "OpenGlobalKeybindingsAction_run preferencesService =
     ([Call_openGlobalKeybindingSettings False],
      map_TPromise Value (openGlobalKeybindingSettings preferencesService False))"

definition OpenGlobalKeybindingsFileAction_run ::
  "('uri, 'r) IPreferencesService \<Rightarrow> 'uri service_call list \<times> 'r any_value TPromise"
where
  "OpenGlobalKeybindingsFileAction_run preferencesService =
     ([Call_openGlobalKeybindingSettings True],
      map_TPromise Value (openGlobalKeybindingSettings preferencesService True))"

subsection \<open>The workspace context service and its events\<close>

text \<open>
  The enumeration \<open>WorkbenchState\<close> is imported; the file names \<open>EMPTY\<close> and
  \<open>WORKSPACE\<close>, and the spec lists the three kinds: empty, single-folder,
  multi-root.
\<close>

datatype WorkbenchState = EMPTY | FOLDER | WORKSPACE

record 'uri IWorkspace =
  folders :: "'uri IWorkspaceFolder list"

datatype workspace_event = onDidChangeWorkbenchState | onDidChangeWorkspaceFolders

text \<open>
  The \<open>IDisposable\<close> that subscribing to an event gives back: it names the event and
  the number of the registration.
\<close>

datatype IDisposable = Subscription workspace_event nat

fun event_of :: "IDisposable \<Rightarrow> workspace_event" where
  "event_of (Subscription ev h) = ev"

text \<open>
  The service as the two actions see it: the two values they read, and the listeners
  registered on its two events, oldest first. A listener is the registration's
  \<open>IDisposable\<close> and the address of the object whose \<open>update\<close> it calls: the only
  listeners the file registers are \<open>() => this.update()\<close>.
\<close>

record 'uri IWorkspaceContextService =
  getWorkbenchState :: WorkbenchState
  getWorkspace :: "'uri IWorkspace"
  listeners :: "(IDisposable \<times> nat) list"
  nextRegistration :: nat

text \<open>
  Modelled from the spec: the event mechanism (\<open>vs/base/common/event\<close>) is imported,
  not defined in the file. The spec describes it as "an explicit observer registration
  returning a cancellation handle": subscribing adds the listener and returns the handle;
  releasing the handle removes that listener.
\<close>

definition subscribe ::
  "workspace_event \<Rightarrow> nat \<Rightarrow> 'uri IWorkspaceContextService \<Rightarrow>
   IDisposable \<times> 'uri IWorkspaceContextService"
where
  "subscribe ev target service =
     (let d = Subscription ev (nextRegistration service)
      in (d, service\<lparr> listeners := listeners service @ [(d, target)],
                       nextRegistration := Suc (nextRegistration service) \<rparr>))"

definition unsubscribe ::
  "IDisposable \<Rightarrow> 'uri IWorkspaceContextService \<Rightarrow> 'uri IWorkspaceContextService"
where
  "unsubscribe d service =
     service\<lparr> listeners := filter (\<lambda>l. fst l \<noteq> d) (listeners service) \<rparr>"

subsection \<open>The objects of the two availability-gated actions\<close>

datatype action_class = OpenWorkspaceSettingsAction | OpenFolderSettingsAction

text \<open>
  Modelled from the spec: the base class \<open>Action\<close> (\<open>vs/base/common/actions\<close>) is
  imported, not defined in the file. The spec's glossary gives an action "an identifier,
  label, enabled state, and a run operation". \<open>inherited\<close> stands for whatever else the
  base class keeps; only its own teardown touches it. \<open>class_of\<close> and
  \<open>disposables\<close> are what the two subclasses add.
\<close>

record 'b Action =
  action_id :: string
  action_label :: string
  enabled :: bool
  inherited :: 'b
  class_of :: action_class
  disposables :: "IDisposable list"

text \<open>
  The workbench: the workspace context service, the action objects by address, the
  next free address, and the subscriptions whose \<open>dispose()\<close> has been called, one
  entry per call, oldest first.
\<close>

record ('uri, 'b) workbench =
  workspaceContextService :: "'uri IWorkspaceContextService"
  objects :: "nat \<Rightarrow> 'b Action option"
  nextObject :: nat
  released :: "IDisposable list"

text \<open>\<open>update\<close> of the workspace settings action (lines 91-93).\<close>

definition OpenWorkspaceSettingsAction_update ::
  "'uri IWorkspaceContextService \<Rightarrow> 'b Action \<Rightarrow> 'b Action"
where
  "OpenWorkspaceSettingsAction_update service this =
     this\<lparr> enabled := (getWorkbenchState service \<noteq> EMPTY) \<rparr>"

text \<open>\<open>update\<close> of the folder settings action (lines 126-128).\<close>

definition OpenFolderSettingsAction_update ::
  "'uri IWorkspaceContextService \<Rightarrow> 'b Action \<Rightarrow> 'b Action"
where
  "OpenFolderSettingsAction_update service this =
     this\<lparr> enabled := (getWorkbenchState service = WORKSPACE
                        \<and> length (folders (getWorkspace service)) > 0) \<rparr>"

text \<open>
  \<open>this.update()\<close>: the method of the object's own class.
\<close>

definition update :: "'uri IWorkspaceContextService \<Rightarrow> 'b Action \<Rightarrow> 'b Action" where
  "update service this =
     (case class_of this of
        OpenWorkspaceSettingsAction \<Rightarrow> OpenWorkspaceSettingsAction_update service this
      | OpenFolderSettingsAction \<Rightarrow> OpenFolderSettingsAction_update service this)"

text \<open>
  The listener \<open>() => this.update()\<close> for the object at an address: it reads the
  service as it is at that moment and writes the object's flag.
\<close>

definition call_update :: "nat \<Rightarrow> ('uri, 'b) workbench \<Rightarrow> ('uri, 'b) workbench" where
  "call_update target w =
     (case objects w target of
        None \<Rightarrow> w
      | Some this \<Rightarrow>
          w\<lparr> objects := (objects w)(target \<mapsto> update (workspaceContextService w) this) \<rparr>)"

text \<open>
  Modelled from the spec: firing an event is part of the imported event mechanism. The
  spec has the actions "recompute the flag synchronously on each notification": when
  the service fires one of its events, every listener registered on that event runs,
  oldest first, before anything else happens.
\<close>

definition fire :: "workspace_event \<Rightarrow> ('uri, 'b) workbench \<Rightarrow> ('uri, 'b) workbench" where
  "fire ev w =
     fold call_update
       (map snd (filter (\<lambda>l. event_of (fst l) = ev) (listeners (workspaceContextService w)))) w"

text \<open>
  Modelled from the spec: the call \<open>event(listener, this, this.disposables)\<close> of
  the imported event mechanism. The spec has the handle "stored" for the teardown: the
  call registers the listener and pushes the handle on the object's \<open>disposables\<close>.
\<close>

definition on_event :: "workspace_event \<Rightarrow> nat \<Rightarrow> ('uri, 'b) workbench \<Rightarrow> ('uri, 'b) workbench" where
  "on_event ev this w =
     (case objects w this of
        None \<Rightarrow> w
      | Some obj \<Rightarrow>
          (let (d, service) = subscribe ev this (workspaceContextService w)
           in w\<lparr> workspaceContextService := service,
                 objects := (objects w)(this \<mapsto> obj\<lparr> disposables := disposables obj @ [d] \<rparr>) \<rparr>))"

text \<open>
  \<open>super(id, label)\<close> is the parameter \<open>super_new\<close>: it gives the identifier, the
  label, the first value of the enabled flag and the rest of the base class's state.
  The object is put at the next free address.
\<close>

definition allocate ::
  "(string \<Rightarrow> string \<Rightarrow> bool \<times> 'b) \<Rightarrow> action_class \<Rightarrow> string \<Rightarrow> string \<Rightarrow>
   ('uri, 'b) workbench \<Rightarrow> nat \<times> ('uri, 'b) workbench"
where
  "allocate super_new cls ident lbl w =
     (let this = nextObject w;
          obj = \<lparr> action_id = ident, action_label = lbl,
                  enabled = fst (super_new ident lbl),
                  inherited = snd (super_new ident lbl),
                  class_of = cls, disposables = [] \<rparr>
      in (this, w\<lparr> objects := (objects w)(this \<mapsto> obj), nextObject := Suc this \<rparr>))"

text \<open>The constructor of the workspace settings action (lines 80-89).\<close>

definition OpenWorkspaceSettingsAction_new ::
  "(string \<Rightarrow> string \<Rightarrow> bool \<times> 'b) \<Rightarrow> string \<Rightarrow> string \<Rightarrow>
   ('uri, 'b) workbench \<Rightarrow> nat \<times> ('uri, 'b) workbench"
where
  "OpenWorkspaceSettingsAction_new super_new ident lbl w =
     (let (this, w1) = allocate super_new OpenWorkspaceSettingsAction ident lbl w;
          w2 = call_update this w1;
          w3 = on_event onDidChangeWorkbenchState this w2
      in (this, w3))"

text \<open>The constructor of the folder settings action (lines 113-124).\<close>

definition OpenFolderSettingsAction_new ::
  "(string \<Rightarrow> string \<Rightarrow> bool \<times> 'b) \<Rightarrow> string \<Rightarrow> string \<Rightarrow>
   ('uri, 'b) workbench \<Rightarrow> nat \<times> ('uri, 'b) workbench"
where
  "OpenFolderSettingsAction_new super_new ident lbl w =
     (let (this, w1) = allocate super_new OpenFolderSettingsAction ident lbl w;
          w2 = call_update this w1;
          w3 = on_event onDidChangeWorkbenchState this w2;
          w4 = on_event onDidChangeWorkspaceFolders this w3
      in (this, w4))"

text \<open>
  Modelled from the spec: \<open>dispose\<close> of \<open>vs/base/common/lifecycle\<close> is imported, not
  defined in the file. The spec has the handles "stored and released exactly once during
  teardown": it calls \<open>dispose()\<close> on every handle of the array, in order, and gives
  back the empty array.
\<close>

definition release :: "IDisposable \<Rightarrow> ('uri, 'b) workbench \<Rightarrow> ('uri, 'b) workbench" where
  "release d w =
     w\<lparr> workspaceContextService := unsubscribe d (workspaceContextService w),
        released := released w @ [d] \<rparr>"

definition dispose_all ::
  "IDisposable list \<Rightarrow> ('uri, 'b) workbench \<Rightarrow> IDisposable list \<times> ('uri, 'b) workbench"
where
  "dispose_all ds w = ([], fold release ds w)"

text \<open>
  \<open>dispose\<close> of the workspace settings action (lines 99-103). \<open>super.dispose()\<close> is
  the parameter \<open>super_dispose\<close>, acting on the inherited state.
\<close>

definition OpenWorkspaceSettingsAction_dispose ::
  "('b \<Rightarrow> 'b) \<Rightarrow> nat \<Rightarrow> ('uri, 'b) workbench \<Rightarrow> ('uri, 'b) workbench"
where
  "OpenWorkspaceSettingsAction_dispose super_dispose this w =
     (case objects w this of
        None \<Rightarrow> w
      | Some obj \<Rightarrow>
          (let (ds, w1) = dispose_all (disposables obj) w
           in w1\<lparr> objects := (objects w1)(this \<mapsto>
                    obj\<lparr> disposables := ds,
                         inherited := super_dispose (inherited obj) \<rparr>) \<rparr>))"

text \<open>\<open>dispose\<close> of the folder settings action (lines 140-144).\<close>

definition OpenFolderSettingsAction_dispose ::
  "('b \<Rightarrow> 'b) \<Rightarrow> nat \<Rightarrow> ('uri, 'b) workbench \<Rightarrow> ('uri, 'b) workbench"
where
  "OpenFolderSettingsAction_dispose super_dispose this w =
     (case objects w this of
        None \<Rightarrow> w
      | Some obj \<Rightarrow>
          (let (ds, w1) = dispose_all (disposables obj) w
           in w1\<lparr> objects := (objects w1)(this \<mapsto>
                    obj\<lparr> disposables := ds,
                         inherited := super_dispose (inherited obj) \<rparr>) \<rparr>))"

text \<open>
  \<open>run\<close> of the workspace settings action (lines 95-97). \<open>this\<close> is the object
  the method is called on.
\<close>

definition OpenWorkspaceSettingsAction_run ::
  "'b Action \<Rightarrow> ('uri, 'r) IPreferencesService \<Rightarrow> 'uri service_call list \<times> 'r any_value TPromise"
where
  "OpenWorkspaceSettingsAction_run this preferencesService =
     ([Call_openWorkspaceSettings], map_TPromise Value (openWorkspaceSettings preferencesService))"

text \<open>
  \<open>run\<close> of the folder settings action (lines 130-138). The command identifier
  \<open>PICK_WORKSPACE_FOLDER_COMMAND\<close> is imported: a parameter.
\<close>

definition OpenFolderSettingsAction_run ::
  "string \<Rightarrow> 'b Action \<Rightarrow> 'uri ICommandService \<Rightarrow> ('uri, 'r) IPreferencesService \<Rightarrow>
   'uri service_call list \<times> 'r any_value TPromise"
where
  "OpenFolderSettingsAction_run PICK_WORKSPACE_FOLDER_COMMAND this commandService
       preferencesService =
     then_promise
       ([Call_executeCommand PICK_WORKSPACE_FOLDER_COMMAND],
        executeCommand commandService PICK_WORKSPACE_FOLDER_COMMAND)
       (\<lambda>workspaceFolder. case workspaceFolder of
          Some folder \<Rightarrow>
            ([Call_openFolderSettings (uri folder)],
             map_TPromise Value (openFolderSettings preferencesService (uri folder)))
        | None \<Rightarrow> ([], Resolved Null))"

subsection \<open>What is observed of an object\<close>

definition enabled_at :: "('uri, 'b) workbench \<Rightarrow> nat \<Rightarrow> bool option" where
  "enabled_at w a = map_option enabled (objects w a)"

definition class_at :: "('uri, 'b) workbench \<Rightarrow> nat \<Rightarrow> action_class option" where
  "class_at w a = map_option class_of (objects w a)"

definition disposables_at :: "('uri, 'b) workbench \<Rightarrow> nat \<Rightarrow> IDisposable list option" where
  "disposables_at w a = map_option disposables (objects w a)"

text \<open>The object at an address has a listener registered on the event.\<close>

definition subscribed :: "workspace_event \<Rightarrow> nat \<Rightarrow> ('uri, 'b) workbench \<Rightarrow> bool" where
  "subscribed ev a w =
     (a \<in> set (map snd (filter (\<lambda>l. event_of (fst l) = ev)
                           (listeners (workspaceContextService w)))))"

text \<open>
  The object at an address is of the class and still listens to the event: it has
  been constructed and its subscription has not been released.
\<close>

definition live :: "action_class \<Rightarrow> workspace_event \<Rightarrow> nat \<Rightarrow> ('uri, 'b) workbench \<Rightarrow> bool" where
  "live cls ev a w = (class_at w a = Some cls \<and> subscribed ev a w)"

text \<open>A workbench with no folder open, no listener and no object, for the examples.\<close>

definition empty_workbench :: "(string, bool) workbench" where
  "empty_workbench =
     \<lparr> workspaceContextService =
         \<lparr> getWorkbenchState = EMPTY, getWorkspace = \<lparr> folders = [] \<rparr>,
           listeners = [], nextRegistration = 0 \<rparr>,
       objects = (\<lambda>a. None), nextObject = 0, released = [] \<rparr>"

text \<open>The service changes the two values the actions read.\<close>

definition set_workspace ::
  "WorkbenchState \<Rightarrow> 'uri IWorkspaceFolder list \<Rightarrow> ('uri, 'b) workbench \<Rightarrow> ('uri, 'b) workbench"
where
  "set_workspace st fs w =
     w\<lparr> workspaceContextService :=
          (workspaceContextService w)\<lparr> getWorkbenchState := st, getWorkspace := \<lparr> folders = fs \<rparr> \<rparr> \<rparr>"

text \<open>
  A notification as the actions meet it: the service has changed the values they read,
  and fires one of its two events. A list of notifications is delivered oldest first.
\<close>

definition notify ::
  "workspace_event \<Rightarrow> WorkbenchState \<Rightarrow> 'uri IWorkspaceFolder list \<Rightarrow>
   ('uri, 'b) workbench \<Rightarrow> ('uri, 'b) workbench"
where
  "notify ev st fs w = fire ev (set_workspace st fs w)"

definition notify_all ::
  "(workspace_event \<times> WorkbenchState \<times> 'uri IWorkspaceFolder list) list \<Rightarrow>
   ('uri, 'b) workbench \<Rightarrow> ('uri, 'b) workbench"
where
  "notify_all ns w = fold (\<lambda>n. notify (fst n) (fst (snd n)) (snd (snd n))) ns w"

subsection \<open>What is observed of a run\<close>

text \<open>The languages \<open>configureSettingsForLanguage\<close> was called with, in call order.\<close>

definition language_calls :: "'uri service_call list \<Rightarrow> string list" where
  "language_calls calls =
     concat (map (\<lambda>c. case c of Call_configureSettingsForLanguage l \<Rightarrow> [l] | _ \<Rightarrow> []) calls)"

text \<open>The folders \<open>openFolderSettings\<close> was called with, in call order.\<close>

definition folder_calls :: "'uri service_call list \<Rightarrow> 'uri list" where
  "folder_calls calls =
     concat (map (\<lambda>c. case c of Call_openFolderSettings u \<Rightarrow> [u] | _ \<Rightarrow> []) calls)"

text \<open>What the picker answers when the language configurator shows its entries.\<close>

definition shown ::
  "(string \<Rightarrow> string \<Rightarrow> string option list \<Rightarrow> string) \<Rightarrow> (string \<Rightarrow> 'uri) \<Rightarrow> IModeService \<Rightarrow>
   'uri IQuickOpenService \<Rightarrow> 'uri IFilePickOpenEntry option TPromise"
where
  "shown localize URI_file modeService quickOpenService =
     pick quickOpenService (picks localize URI_file modeService)
       \<lparr> placeHolder = localize ''pickLanguage'' ''Select Language'' [] \<rparr>"

subsection \<open>Collaborators for the examples\<close>

text \<open>
  A \<open>localize\<close> that puts the arguments into the default message: \<open>{n}\<close> becomes
  the \<open>n\<close>-th argument (\<open>null\<close> prints as \<open>null\<close>), and stays when there is no
  such argument.
\<close>

fun format :: "string \<Rightarrow> string option list \<Rightarrow> string" where
  "format (a # b # c # rest) args =
     (if a = CHR ''{'' \<and> c = CHR ''}'' \<and> 48 \<le> (of_char b :: nat) \<and> (of_char b :: nat) \<le> 57
      then (if of_char b - 48 < length args
            then (case args ! (of_char b - 48) of Some s \<Rightarrow> s | None \<Rightarrow> ''null'')
            else [a, b, c]) @ format rest args
      else a # format (b # c # rest) args)"
| "format s args = s"

definition example_localize :: "string \<Rightarrow> string \<Rightarrow> string option list \<Rightarrow> string" where
  "example_localize key message args = format message args"

definition example_URI_file :: "string \<Rightarrow> string" where
  "example_URI_file path = ''file://'' @ path"

text \<open>
  A mode registry with four languages. As in the workbench, it finds mode identifiers
  by lower-cased language name and knows no other key. \<open>Go\<close> has neither extensions
  nor file names.
\<close>

definition example_modeService :: IModeService where
  "example_modeService =
     \<lparr> getRegisteredLanguageNames = [''TypeScript'', ''Makefile'', ''C'', ''Go''],
       getModeIdForLanguageName =
         map_of [(''typescript'', ''typescript''), (''makefile'', ''makefile''),
                 (''c'', ''c''), (''go'', ''go'')],
       getExtensions =
         map_of [(''TypeScript'', [''.ts'', ''.tsx'']), (''Makefile'', []), (''C'', [''.c'', ''.h''])],
       getFilenames = map_of [(''Makefile'', [''Makefile'']), (''Go'', [])],
       getOrCreateModeByLanguageName =
         (\<lambda>name.
            case map_of [(''TypeScript'', ''typescript''), (''Makefile'', ''makefile''),
                         (''C'', ''c''), (''Go'', ''go'')] name of
              Some i \<Rightarrow> Resolved \<lparr> getLanguageIdentifier = \<lparr> language = i \<rparr> \<rparr>
            | None \<Rightarrow> Rejected ''Unknown language'') \<rparr>"

text \<open>The same registry when the mode of a language cannot be created.\<close>

definition failing_modeService :: IModeService where
  "failing_modeService =
     example_modeService\<lparr> getOrCreateModeByLanguageName := (\<lambda>name. Rejected ''Activation failed'') \<rparr>"

text \<open>A user who selects the first entry, and a user who dismisses the picker.\<close>

definition selecting_quickOpenService :: "string IQuickOpenService" where
  "selecting_quickOpenService =
     \<lparr> pick = (\<lambda>entries options.
                 case entries of [] \<Rightarrow> Resolved None | e # es \<Rightarrow> Resolved (Some e)) \<rparr>"

definition cancelling_quickOpenService :: "string IQuickOpenService" where
  "cancelling_quickOpenService = \<lparr> pick = (\<lambda>entries options. Resolved None) \<rparr>"

text \<open>A picker that fails: its promise is rejected.\<close>

definition rejecting_quickOpenService :: "string IQuickOpenService" where
  "rejecting_quickOpenService = \<lparr> pick = (\<lambda>entries options. Rejected ''Picker failed'') \<rparr>"

definition example_preferencesService :: "(string, unit) IPreferencesService" where
  "example_preferencesService =
     \<lparr> openGlobalSettings = Resolved (),
       openGlobalKeybindingSettings = (\<lambda>textual. Resolved ()),
       openWorkspaceSettings = Resolved (),
       openFolderSettings = (\<lambda>folder. Resolved ()),
       configureSettingsForLanguage = (\<lambda>l. Resolved ()) \<rparr>"

text \<open>A folder picker whose user selects a folder, and one whose user dismisses it.\<close>

definition selecting_commandService :: "string ICommandService" where
  "selecting_commandService =
     \<lparr> executeCommand = (\<lambda>command. Resolved (Some \<lparr> uri = ''/home/project'' \<rparr>)) \<rparr>"

definition cancelling_commandService :: "string ICommandService" where
  "cancelling_commandService = \<lparr> executeCommand = (\<lambda>command. Resolved None) \<rparr>"

text \<open>
  The two gated actions, each constructed on the empty workbench. In the examples the
  inherited state is one flag, "the base class has been torn down", which
  \<open>super.dispose()\<close> sets.
\<close>

definition workspace_action_example :: "nat \<times> (string, bool) workbench" where
  "workspace_action_example =
     OpenWorkspaceSettingsAction_new (\<lambda>i l. (True, False))
       ''workbench.action.openWorkspaceSettings'' ''Open Workspace Settings'' empty_workbench"

definition folder_action_example :: "nat \<times> (string, bool) workbench" where
  "folder_action_example =
     OpenFolderSettingsAction_new (\<lambda>i l. (True, False))
       ''workbench.action.openFolderSettings'' ''Open Folder Settings'' empty_workbench"

section \<open>Properties\<close>

lemma map_label_picks:
  "map label (picks localize URI_file modeService) = sort (getRegisteredLanguageNames modeService)"
  by (simp add: picks_def languagePick_def comp_def)


subsection \<open>The flag is written by \<open>update\<close> only, and listeners reach their own object\<close>

lemma update_class [simp]: "class_of (update s obj) = class_of obj"
  by (simp add: update_def OpenWorkspaceSettingsAction_update_def
      OpenFolderSettingsAction_update_def split: action_class.split)

lemma update_disposables [simp]: "disposables (update s obj) = disposables obj"
  by (simp add: update_def OpenWorkspaceSettingsAction_update_def
      OpenFolderSettingsAction_update_def split: action_class.split)

lemma update_idem [simp]: "update s (update s obj) = update s obj"
  by (simp add: update_def OpenWorkspaceSettingsAction_update_def
      OpenFolderSettingsAction_update_def split: action_class.split)

lemma call_update_frame [simp]:
  "workspaceContextService (call_update t w) = workspaceContextService w"
  "released (call_update t w) = released w"
  "nextObject (call_update t w) = nextObject w"
  by (simp_all add: call_update_def split: option.split)

lemma call_update_objects:
  "objects (call_update t w) a =
     (if a = t then map_option (update (workspaceContextService w)) (objects w a)
      else objects w a)"
  by (simp add: call_update_def split: option.split)

lemma fold_call_update_frame [simp]:
  "workspaceContextService (fold call_update ts w) = workspaceContextService w"
  "released (fold call_update ts w) = released w"
  "nextObject (fold call_update ts w) = nextObject w"
  by (induction ts arbitrary: w) simp_all

lemma fold_call_update_objects:
  "objects (fold call_update ts w) a =
     (if a \<in> set ts then map_option (update (workspaceContextService w)) (objects w a)
      else objects w a)"
proof (induction ts arbitrary: w)
  case Nil
  show ?case by simp
next
  case (Cons t ts)
  show ?case
    by (simp add: Cons.IH call_update_objects option.map_comp comp_def)
qed

lemma fire_frame [simp]:
  "workspaceContextService (fire ev w) = workspaceContextService w"
  "released (fire ev w) = released w"
  "nextObject (fire ev w) = nextObject w"
  by (simp_all add: fire_def)

lemma fire_objects:
  "objects (fire ev w) a =
     (if subscribed ev a w then map_option (update (workspaceContextService w)) (objects w a)
      else objects w a)"
  unfolding fire_def subscribed_def by (rule fold_call_update_objects)

lemma fire_live: "live cls ev' a (fire ev w) = live cls ev' a w"
  by (auto simp add: live_def class_at_def subscribed_def fire_objects option.map_comp comp_def)

lemma fire_enabled_workspace:
  assumes "live OpenWorkspaceSettingsAction ev a w"
  shows "enabled_at (fire ev w) a =
           Some (getWorkbenchState (workspaceContextService w) \<noteq> EMPTY)"
  using assms
  by (auto simp add: live_def class_at_def enabled_at_def fire_objects update_def
      OpenWorkspaceSettingsAction_update_def)

lemma fire_enabled_folder:
  assumes "live OpenFolderSettingsAction ev a w"
  shows "enabled_at (fire ev w) a =
           Some (getWorkbenchState (workspaceContextService w) = WORKSPACE
                 \<and> length (folders (getWorkspace (workspaceContextService w))) > 0)"
  using assms
  by (auto simp add: live_def class_at_def enabled_at_def fire_objects update_def
      OpenFolderSettingsAction_update_def)

subsection \<open>The constructors\<close>

lemma allocate_result:
  "allocate sn cls i l w =
     (nextObject w,
      w\<lparr> objects := (objects w)(nextObject w \<mapsto>
            \<lparr> action_id = i, action_label = l, enabled = fst (sn i l),
              inherited = snd (sn i l), class_of = cls, disposables = [] \<rparr>),
         nextObject := Suc (nextObject w) \<rparr>)"
  by (simp add: allocate_def Let_def)

lemma on_event_frame [simp]:
  "released (on_event ev t w) = released w"
  "nextObject (on_event ev t w) = nextObject w"
  "getWorkbenchState (workspaceContextService (on_event ev t w)) =
     getWorkbenchState (workspaceContextService w)"
  "getWorkspace (workspaceContextService (on_event ev t w)) =
     getWorkspace (workspaceContextService w)"
  by (simp_all add: on_event_def subscribe_def Let_def split: option.split)

lemma on_event_objects:
  "objects (on_event ev t w) a =
     (if a = t
      then map_option (\<lambda>obj. obj\<lparr> disposables := disposables obj @
              [Subscription ev (nextRegistration (workspaceContextService w))] \<rparr>) (objects w a)
      else objects w a)"
  by (simp add: on_event_def subscribe_def Let_def split: option.split)

lemma on_event_listeners:
  "listeners (workspaceContextService (on_event ev t w)) =
     (case objects w t of
        None \<Rightarrow> listeners (workspaceContextService w)
      | Some obj \<Rightarrow> listeners (workspaceContextService w) @
          [(Subscription ev (nextRegistration (workspaceContextService w)), t)])"
  by (simp add: on_event_def subscribe_def Let_def split: option.split)

lemma workspace_new_enabled:
  "enabled_at (snd (OpenWorkspaceSettingsAction_new sn i l w))
       (fst (OpenWorkspaceSettingsAction_new sn i l w))
     = Some (getWorkbenchState (workspaceContextService w) \<noteq> EMPTY)"
  by (simp add: OpenWorkspaceSettingsAction_new_def allocate_result enabled_at_def
      on_event_objects call_update_objects update_def OpenWorkspaceSettingsAction_update_def)

lemma workspace_new_service:
  "getWorkbenchState (workspaceContextService (snd (OpenWorkspaceSettingsAction_new sn i l w)))
     = getWorkbenchState (workspaceContextService w)"
  "getWorkspace (workspaceContextService (snd (OpenWorkspaceSettingsAction_new sn i l w)))
     = getWorkspace (workspaceContextService w)"
  by (simp_all add: OpenWorkspaceSettingsAction_new_def allocate_result)

lemma workspace_new_live:
  "live OpenWorkspaceSettingsAction onDidChangeWorkbenchState
     (fst (OpenWorkspaceSettingsAction_new sn i l w))
     (snd (OpenWorkspaceSettingsAction_new sn i l w))"
  by (simp add: OpenWorkspaceSettingsAction_new_def allocate_result live_def class_at_def
      subscribed_def on_event_objects on_event_listeners call_update_objects)

lemma folder_new_enabled:
  "enabled_at (snd (OpenFolderSettingsAction_new sn i l w))
       (fst (OpenFolderSettingsAction_new sn i l w))
     = Some (getWorkbenchState (workspaceContextService w) = WORKSPACE
             \<and> length (folders (getWorkspace (workspaceContextService w))) > 0)"
  by (simp add: OpenFolderSettingsAction_new_def allocate_result enabled_at_def
      on_event_objects call_update_objects update_def OpenFolderSettingsAction_update_def)

lemma folder_new_service:
  "getWorkbenchState (workspaceContextService (snd (OpenFolderSettingsAction_new sn i l w)))
     = getWorkbenchState (workspaceContextService w)"
  "getWorkspace (workspaceContextService (snd (OpenFolderSettingsAction_new sn i l w)))
     = getWorkspace (workspaceContextService w)"
  by (simp_all add: OpenFolderSettingsAction_new_def allocate_result)

lemma folder_new_live:
  "live OpenFolderSettingsAction ev
     (fst (OpenFolderSettingsAction_new sn i l w))
     (snd (OpenFolderSettingsAction_new sn i l w))"
  by (cases ev)
    (simp_all add: OpenFolderSettingsAction_new_def allocate_result live_def class_at_def
      subscribed_def on_event_objects on_event_listeners call_update_objects)

subsection \<open>Notifications after the constructor\<close>

lemma set_workspace_live [simp]: "live cls ev a (set_workspace st fs w) = live cls ev a w"
  by (simp add: live_def class_at_def subscribed_def set_workspace_def)

lemma notify_live [simp]: "live cls ev' a (notify ev st fs w) = live cls ev' a w"
  by (simp add: notify_def fire_live)

lemma notify_all_live [simp]: "live cls ev' a (notify_all ns w) = live cls ev' a w"
  unfolding notify_all_def by (induction ns arbitrary: w) simp_all

lemma notify_all_snoc:
  "notify_all (ns @ [n]) w = notify (fst n) (fst (snd n)) (snd (snd n)) (notify_all ns w)"
  by (simp add: notify_all_def)

lemma notify_enabled_folder:
  assumes "live OpenFolderSettingsAction ev a w"
  shows "enabled_at (notify ev st fs w) a =
           Some (getWorkbenchState (workspaceContextService (notify ev st fs w)) = WORKSPACE
                 \<and> length (folders (getWorkspace
                      (workspaceContextService (notify ev st fs w)))) > 0)"
  using assms by (simp add: notify_def fire_enabled_folder)

lemma notify_enabled_workspace:
  assumes "live OpenWorkspaceSettingsAction ev a w"
  shows "enabled_at (notify ev st fs w) a =
           Some (getWorkbenchState (workspaceContextService (notify ev st fs w)) \<noteq> EMPTY)"
  using assms by (simp add: notify_def fire_enabled_workspace)

lemma folder_trace:
  "enabled_at (notify_all ns (snd (OpenFolderSettingsAction_new sn i l w0)))
       (fst (OpenFolderSettingsAction_new sn i l w0))
     = Some (getWorkbenchState (workspaceContextService
               (notify_all ns (snd (OpenFolderSettingsAction_new sn i l w0)))) = WORKSPACE
             \<and> length (folders (getWorkspace (workspaceContextService
               (notify_all ns (snd (OpenFolderSettingsAction_new sn i l w0)))))) > 0)"
proof (cases ns rule: rev_cases)
  case Nil
  then show ?thesis
    by (simp add: notify_all_def folder_new_enabled folder_new_service)
next
  case (snoc ms n)
  have "live OpenFolderSettingsAction (fst n) (fst (OpenFolderSettingsAction_new sn i l w0))
          (notify_all ms (snd (OpenFolderSettingsAction_new sn i l w0)))"
    by (simp add: folder_new_live)
  then show ?thesis
    unfolding snoc notify_all_snoc by (rule notify_enabled_folder)
qed

lemma workspace_trace:
  "enabled_at
       (notify_all (map (\<lambda>c. (onDidChangeWorkbenchState, c)) cs)
          (snd (OpenWorkspaceSettingsAction_new sn i l w0)))
       (fst (OpenWorkspaceSettingsAction_new sn i l w0))
     = Some (getWorkbenchState (workspaceContextService
               (notify_all (map (\<lambda>c. (onDidChangeWorkbenchState, c)) cs)
                  (snd (OpenWorkspaceSettingsAction_new sn i l w0)))) \<noteq> EMPTY)"
proof (cases cs rule: rev_cases)
  case Nil
  then show ?thesis
    by (simp add: notify_all_def workspace_new_enabled workspace_new_service)
next
  case (snoc ds c)
  have "live OpenWorkspaceSettingsAction onDidChangeWorkbenchState
          (fst (OpenWorkspaceSettingsAction_new sn i l w0))
          (notify_all (map (\<lambda>c. (onDidChangeWorkbenchState, c)) ds)
             (snd (OpenWorkspaceSettingsAction_new sn i l w0)))"
    by (simp add: workspace_new_live)
  then show ?thesis
    unfolding snoc map_append list.map notify_all_snoc fst_conv snd_conv
    by (rule notify_enabled_workspace)
qed

subsection \<open>Unfolding the examples\<close>

lemmas example_defs =
  workspace_action_example_def folder_action_example_def
  OpenWorkspaceSettingsAction_new_def OpenFolderSettingsAction_new_def
  allocate_def call_update_def update_def on_event_def subscribe_def empty_workbench_def
  set_workspace_def live_def class_at_def subscribed_def enabled_at_def fire_def Let_def
  OpenWorkspaceSettingsAction_update_def OpenFolderSettingsAction_update_def

subsection \<open>The workspace settings action is enabled exactly off the empty workbench\<close>

text \<open>
  Claim C7. Right after its constructor, and right after every notification of
  \<open>onDidChangeWorkbenchState\<close> that reaches it, the workspace settings action is
  enabled if and only if the workbench state is not \<open>EMPTY\<close>. First: the
  constructor. Second: the constructor followed by any list of workbench state
  notifications, each after any change of state and folders. Third: one notification,
  on any workbench where the action is still listening (constructed, its subscription
  not released); the notification leaves it listening.
\<close>

theorem workspace_settings_enabled_iff_not_empty:
  "(let new = OpenWorkspaceSettingsAction_new super_new ident lbl w0
    in enabled_at (snd new) (fst new)
         = Some (getWorkbenchState (workspaceContextService (snd new)) \<noteq> EMPTY)
       \<and> live OpenWorkspaceSettingsAction onDidChangeWorkbenchState (fst new) (snd new))
   \<and> (let new = OpenWorkspaceSettingsAction_new super_new ident lbl w0;
          w' = notify_all (map (\<lambda>c. (onDidChangeWorkbenchState, c)) changes) (snd new)
      in enabled_at w' (fst new)
           = Some (getWorkbenchState (workspaceContextService w') \<noteq> EMPTY))
   \<and> (live OpenWorkspaceSettingsAction onDidChangeWorkbenchState a w \<longrightarrow>
        (let w' = fire onDidChangeWorkbenchState w
         in enabled_at w' a = Some (getWorkbenchState (workspaceContextService w') \<noteq> EMPTY)
            \<and> live OpenWorkspaceSettingsAction onDidChangeWorkbenchState a w'))"
  by (simp add: Let_def workspace_new_enabled workspace_new_service workspace_new_live
      workspace_trace fire_enabled_workspace fire_live)

theorem workspace_settings_enabled_iff_not_empty_witness:
  "fst workspace_action_example = 0
   \<and> enabled_at (snd workspace_action_example) 0 = Some False
   \<and> live OpenWorkspaceSettingsAction onDidChangeWorkbenchState 0
       (set_workspace FOLDER [\<lparr> uri = ''/home/project'' \<rparr>] (snd workspace_action_example))
   \<and> enabled_at
       (fire onDidChangeWorkbenchState
          (set_workspace FOLDER [\<lparr> uri = ''/home/project'' \<rparr>] (snd workspace_action_example))) 0
       = Some True"
proof -
  let ?w = "set_workspace FOLDER [\<lparr> uri = ''/home/project'' \<rparr>] (snd workspace_action_example)"
  have h: "live OpenWorkspaceSettingsAction onDidChangeWorkbenchState 0 ?w"
    by (simp add: example_defs)
  have s: "getWorkbenchState (workspaceContextService (fire onDidChangeWorkbenchState ?w)) = FOLDER"
    by (simp add: set_workspace_def)
  have c: "fst workspace_action_example = 0"
    "enabled_at (snd workspace_action_example) 0 = Some False"
    by (simp_all add: example_defs)
  note t = workspace_settings_enabled_iff_not_empty
    [THEN conjunct2, THEN conjunct2, rule_format, OF h]
  from t h s c show ?thesis by (simp add: Let_def)
qed

subsection \<open>The folder settings action is enabled exactly in a workspace with folders\<close>

text \<open>
  Claim C1. Right after its constructor, and right after every notification of
  \<open>onDidChangeWorkbenchState\<close> or \<open>onDidChangeWorkspaceFolders\<close> that reaches it,
  the folder settings action is enabled if and only if the workbench state is
  \<open>WORKSPACE\<close> and the workspace has more than zero folders. First: the constructor,
  which leaves the action listening to both events. Second: the constructor followed by
  any list of notifications of either event, each after any change of state and
  folders. Third: one notification of either event, on any workbench where the action
  is still listening to it; the notification leaves its subscriptions as they are.
\<close>

theorem folder_settings_enabled_iff_workspace_with_folders:
  "(let new = OpenFolderSettingsAction_new super_new ident lbl w0
    in enabled_at (snd new) (fst new)
         = Some (getWorkbenchState (workspaceContextService (snd new)) = WORKSPACE
                 \<and> length (folders (getWorkspace (workspaceContextService (snd new)))) > 0)
       \<and> live OpenFolderSettingsAction onDidChangeWorkbenchState (fst new) (snd new)
       \<and> live OpenFolderSettingsAction onDidChangeWorkspaceFolders (fst new) (snd new))
   \<and> (let new = OpenFolderSettingsAction_new super_new ident lbl w0;
          w' = notify_all notifications (snd new)
      in enabled_at w' (fst new)
           = Some (getWorkbenchState (workspaceContextService w') = WORKSPACE
                   \<and> length (folders (getWorkspace (workspaceContextService w'))) > 0))
   \<and> (live OpenFolderSettingsAction ev a w \<longrightarrow>
        (let w' = fire ev w
         in enabled_at w' a
              = Some (getWorkbenchState (workspaceContextService w') = WORKSPACE
                      \<and> length (folders (getWorkspace (workspaceContextService w'))) > 0)
            \<and> live OpenFolderSettingsAction onDidChangeWorkbenchState a w'
                 = live OpenFolderSettingsAction onDidChangeWorkbenchState a w
            \<and> live OpenFolderSettingsAction onDidChangeWorkspaceFolders a w'
                 = live OpenFolderSettingsAction onDidChangeWorkspaceFolders a w))"
  by (simp add: Let_def folder_new_enabled folder_new_service folder_new_live
      folder_trace fire_enabled_folder fire_live)

theorem folder_settings_enabled_iff_workspace_with_folders_witness:
  "fst folder_action_example = 0
   \<and> enabled_at (snd folder_action_example) 0 = Some False
   \<and> live OpenFolderSettingsAction onDidChangeWorkspaceFolders 0
       (set_workspace WORKSPACE [\<lparr> uri = ''/home/project'' \<rparr>] (snd folder_action_example))
   \<and> enabled_at
       (fire onDidChangeWorkspaceFolders
          (set_workspace WORKSPACE [\<lparr> uri = ''/home/project'' \<rparr>] (snd folder_action_example))) 0
       = Some True
   \<and> live OpenFolderSettingsAction onDidChangeWorkbenchState 0
       (set_workspace WORKSPACE [] (snd folder_action_example))
   \<and> enabled_at
       (fire onDidChangeWorkbenchState
          (set_workspace WORKSPACE [] (snd folder_action_example))) 0
       = Some False"
proof -
  let ?w = "set_workspace WORKSPACE [\<lparr> uri = ''/home/project'' \<rparr>] (snd folder_action_example)"
  let ?v = "set_workspace WORKSPACE [] (snd folder_action_example)"
  have h: "live OpenFolderSettingsAction onDidChangeWorkspaceFolders 0 ?w"
    by (simp add: example_defs)
  have k: "live OpenFolderSettingsAction onDidChangeWorkbenchState 0 ?v"
    by (simp add: example_defs)
  have c: "fst folder_action_example = 0"
    "enabled_at (snd folder_action_example) 0 = Some False"
    by (simp_all add: example_defs)
  note t = folder_settings_enabled_iff_workspace_with_folders
    [THEN conjunct2, THEN conjunct2, rule_format, OF h]
  note u = folder_settings_enabled_iff_workspace_with_folders
    [THEN conjunct2, THEN conjunct2, rule_format, OF k]
  from t u h k c show ?thesis by (simp add: Let_def set_workspace_def)
qed

subsection \<open>Both constructors compute the flag at once\<close>

text \<open>
  Claim C10. Both constructors call \<open>update()\<close> before they subscribe to anything:
  when the constructor returns, with no notification delivered, the flag of the new
  object is the one \<open>update\<close> computes from the workspace as it is, whatever flag the
  base class started with; the constructor changes neither the workbench state nor the
  folders.
\<close>

theorem constructors_compute_enabled_eagerly:
  "(let new = OpenWorkspaceSettingsAction_new super_new ident lbl w
    in enabled_at (snd new) (fst new)
         = Some (getWorkbenchState (workspaceContextService w) \<noteq> EMPTY)
       \<and> getWorkbenchState (workspaceContextService (snd new))
           = getWorkbenchState (workspaceContextService w))
   \<and> (let new = OpenFolderSettingsAction_new super_new ident lbl w
      in enabled_at (snd new) (fst new)
           = Some (getWorkbenchState (workspaceContextService w) = WORKSPACE
                   \<and> length (folders (getWorkspace (workspaceContextService w))) > 0)
         \<and> getWorkbenchState (workspaceContextService (snd new))
             = getWorkbenchState (workspaceContextService w)
         \<and> getWorkspace (workspaceContextService (snd new))
             = getWorkspace (workspaceContextService w))"
  by (simp add: Let_def workspace_new_enabled workspace_new_service folder_new_enabled
      folder_new_service)

subsection \<open>Promises\<close>

lemma then_promise_calls:
  "fst (then_promise (cs, p) f) = cs @ (case p of Resolved v \<Rightarrow> fst (f v) | Rejected e \<Rightarrow> [])"
  by (cases p) simp_all

lemma then_promise_result:
  "snd (then_promise (cs, p) f) = (case p of Resolved v \<Rightarrow> snd (f v) | Rejected e \<Rightarrow> Rejected e)"
  by (cases p) simp_all

subsection \<open>The entries of the language picker\<close>

lemma picks_entry:
  assumes "e \<in> set (picks L F ms)"
  shows "label e \<in> set (getRegisteredLanguageNames ms)"
    and "resource e = fakeResource F ms (label e)"
    and "description e =
           L ''languageDescriptionConfigured'' ''({0})''
             [getModeIdForLanguageName ms (toLowerCase (label e))]"
proof -
  from assms obtain lang
    where lang: "lang \<in> set (getRegisteredLanguageNames ms)" and e: "e = languagePick L F ms lang"
    by (auto simp add: picks_def)
  show "label e \<in> set (getRegisteredLanguageNames ms)"
    by (simp add: e lang languagePick_def)
  show "resource e = fakeResource F ms (label e)"
    by (simp add: e languagePick_def)
  show "description e =
           L ''languageDescriptionConfigured'' ''({0})''
             [getModeIdForLanguageName ms (toLowerCase (label e))]"
    by (simp add: e languagePick_def)
qed

lemma language_run_calls:
  "fst (ConfigureLanguageBasedSettingsAction_run L F ms qs ps) =
     (let entries = picks L F ms;
          options = \<lparr> placeHolder = L ''pickLanguage'' ''Select Language'' [] \<rparr>
      in Call_pick entries options #
         (case pick qs entries options of
            Resolved (Some selected) \<Rightarrow>
              Call_getOrCreateModeByLanguageName (label selected) #
                (case getOrCreateModeByLanguageName ms (label selected) of
                   Resolved mode \<Rightarrow>
                     [Call_configureSettingsForLanguage (language (getLanguageIdentifier mode))]
                 | Rejected e \<Rightarrow> [])
          | _ \<Rightarrow> []))"
  by (simp add: ConfigureLanguageBasedSettingsAction_run_def then_promise_calls Let_def
      split: TPromise.split option.split)

lemma language_run_result:
  "snd (ConfigureLanguageBasedSettingsAction_run L F ms qs ps) =
     (case shown L F ms qs of
        Resolved (Some selected) \<Rightarrow>
          (case getOrCreateModeByLanguageName ms (label selected) of
             Resolved mode \<Rightarrow>
               map_TPromise Value
                 (configureSettingsForLanguage ps (language (getLanguageIdentifier mode)))
           | Rejected e \<Rightarrow> Rejected e)
      | Resolved None \<Rightarrow> Resolved Undefined
      | Rejected e \<Rightarrow> Rejected e)"
  by (simp add: ConfigureLanguageBasedSettingsAction_run_def then_promise_result Let_def shown_def
      split: TPromise.split option.split)

lemma language_calls_run:
  "language_calls (fst (ConfigureLanguageBasedSettingsAction_run L F ms qs ps)) =
     (case shown L F ms qs of
        Resolved (Some selected) \<Rightarrow>
          (case getOrCreateModeByLanguageName ms (label selected) of
             Resolved mode \<Rightarrow> [language (getLanguageIdentifier mode)]
           | Rejected e \<Rightarrow> [])
      | _ \<Rightarrow> [])"
  by (simp add: language_run_calls language_calls_def shown_def Let_def
      split: option.split TPromise.split)

text \<open>The example registry: its entries, and what the two example users answer.\<close>

lemma lower_examples:
  "toLowerCase ''TypeScript'' = ''typescript''"
  "toLowerCase ''Makefile'' = ''makefile''"
  "toLowerCase ''C'' = ''c''"
  "toLowerCase ''Go'' = ''go''"
  by code_simp+

lemma example_picks:
  "picks example_localize example_URI_file example_modeService =
     [\<lparr> label = ''C'', resource = Some ''file://.c'', description = ''(c)'' \<rparr>,
      \<lparr> label = ''Go'', resource = None, description = ''(go)'' \<rparr>,
      \<lparr> label = ''Makefile'', resource = Some ''file://Makefile'', description = ''(makefile)'' \<rparr>,
      \<lparr> label = ''TypeScript'', resource = Some ''file://.ts'', description = ''(typescript)'' \<rparr>]"
  by (simp add: picks_def languagePick_def fakeResource_def example_modeService_def
      example_localize_def example_URI_file_def lower_examples)

lemma example_shown:
  "shown example_localize example_URI_file example_modeService selecting_quickOpenService
     = Resolved (Some \<lparr> label = ''C'', resource = Some ''file://.c'', description = ''(c)'' \<rparr>)"
  "shown example_localize example_URI_file example_modeService cancelling_quickOpenService
     = Resolved None"
  by (simp_all add: shown_def example_picks selecting_quickOpenService_def
      cancelling_quickOpenService_def)

lemma failing_picks:
  "picks L F failing_modeService = picks L F example_modeService"
  by (simp add: picks_def languagePick_def fakeResource_def failing_modeService_def
      cong: option.case_cong list.case_cong)

lemma failing_shown:
  "shown example_localize example_URI_file failing_modeService selecting_quickOpenService
     = Resolved (Some \<lparr> label = ''C'', resource = Some ''file://.c'', description = ''(c)'' \<rparr>)"
  by (simp add: shown_def failing_picks example_picks selecting_quickOpenService_def)

subsection \<open>The entries are shown sorted by language name\<close>

text \<open>
  Claim C3. The labels of the entries are the registered language names in ascending
  lexicographic order of their code units (\<open>sorted\<close> over the order of
  \<open>List_Lexorder\<close> and \<open>Char_ord\<close>), none lost and none added; the sorted
  entries are what the first call of \<open>run\<close> hands to the picker; and when the
  registered names are \<open>TypeScript\<close>, \<open>C\<close> and \<open>Go\<close>, in whatever order the
  registry lists them, the labels shown are \<open>C\<close>, \<open>Go\<close>, \<open>TypeScript\<close>.
\<close>

theorem picks_sorted_by_label:
  "sorted (map label (picks localize URI_file modeService))
   \<and> mset (map label (picks localize URI_file modeService))
       = mset (getRegisteredLanguageNames modeService)
   \<and> take 1 (fst (ConfigureLanguageBasedSettingsAction_run localize URI_file modeService
                    quickOpenService preferencesService))
       = [Call_pick (picks localize URI_file modeService)
            \<lparr> placeHolder = localize ''pickLanguage'' ''Select Language'' [] \<rparr>]
   \<and> (mset (getRegisteredLanguageNames modeService) = {#''TypeScript'', ''C'', ''Go''#} \<longrightarrow>
        map label (picks localize URI_file modeService) = [''C'', ''Go'', ''TypeScript''])"
proof (intro conjI impI)
  show "sorted (map label (picks localize URI_file modeService))"
    by (simp add: map_label_picks)
  show "mset (map label (picks localize URI_file modeService))
       = mset (getRegisteredLanguageNames modeService)"
    by (simp add: map_label_picks)
  show "take 1 (fst (ConfigureLanguageBasedSettingsAction_run localize URI_file modeService
                    quickOpenService preferencesService))
       = [Call_pick (picks localize URI_file modeService)
            \<lparr> placeHolder = localize ''pickLanguage'' ''Select Language'' [] \<rparr>]"
    by (simp add: language_run_calls Let_def)
next
  assume names: "mset (getRegisteredLanguageNames modeService) = {#''TypeScript'', ''C'', ''Go''#}"
  have "sort (getRegisteredLanguageNames modeService) = [''C'', ''Go'', ''TypeScript'']"
  proof (rule properties_for_sort)
    show "mset [''C'', ''Go'', ''TypeScript''] = mset (getRegisteredLanguageNames modeService)"
      by (simp add: names)
    show "sorted [''C'', ''Go'', ''TypeScript'']"
      by simp
  qed
  then show "map label (picks localize URI_file modeService) = [''C'', ''Go'', ''TypeScript'']"
    by (simp add: map_label_picks)
qed

theorem picks_sorted_by_label_witness:
  "mset (getRegisteredLanguageNames
           (example_modeService\<lparr> getRegisteredLanguageNames := [''TypeScript'', ''C'', ''Go''] \<rparr>))
     = {#''TypeScript'', ''C'', ''Go''#}
   \<and> map label (picks example_localize example_URI_file
         (example_modeService\<lparr> getRegisteredLanguageNames := [''TypeScript'', ''C'', ''Go''] \<rparr>))
     = [''C'', ''Go'', ''TypeScript'']"
proof -
  let ?ms = "example_modeService\<lparr> getRegisteredLanguageNames := [''TypeScript'', ''C'', ''Go''] \<rparr>"
  have h: "mset (getRegisteredLanguageNames ?ms) = {#''TypeScript'', ''C'', ''Go''#}"
    by simp
  note t = picks_sorted_by_label [of example_localize example_URI_file ?ms,
      THEN conjunct2, THEN conjunct2, THEN conjunct2, rule_format, OF h]
  from t h show ?thesis by simp
qed

subsection \<open>The representative resource of an entry\<close>

text \<open>
  Claim C4. For every entry that \<open>run\<close> builds: when the language has an extension
  list that is not empty, the entry's resource is \<open>URI.file\<close> of the first
  extension; otherwise, when it has a file name list that is not empty, the resource is
  \<open>URI.file\<close> of the first file name; otherwise the entry has no resource. A list
  that is missing counts as empty.
\<close>

theorem representative_resource:
  "e \<in> set (picks localize URI_file modeService) \<Longrightarrow>
     (getExtensions modeService (label e) = Some (x # xs) \<longrightarrow>
        resource e = Some (URI_file x))
     \<and> ((getExtensions modeService (label e) = None \<or> getExtensions modeService (label e) = Some [])
         \<and> getFilenames modeService (label e) = Some (f # fs) \<longrightarrow>
        resource e = Some (URI_file f))
     \<and> ((getExtensions modeService (label e) = None \<or> getExtensions modeService (label e) = Some [])
         \<and> (getFilenames modeService (label e) = None \<or> getFilenames modeService (label e) = Some []) \<longrightarrow>
        resource e = None)"
proof -
  assume "e \<in> set (picks localize URI_file modeService)"
  then have e: "resource e = fakeResource URI_file modeService (label e)"
    by (rule picks_entry)
  show ?thesis
    unfolding e fakeResource_def by auto
qed

theorem representative_resource_witness:
  "\<lparr> label = ''TypeScript'', resource = Some ''file://.ts'', description = ''(typescript)'' \<rparr>
     \<in> set (picks example_localize example_URI_file example_modeService)
   \<and> getExtensions example_modeService ''TypeScript'' = Some [''.ts'', ''.tsx'']
   \<and> Some ''file://.ts'' = Some (example_URI_file ''.ts'')
   \<and> \<lparr> label = ''Makefile'', resource = Some ''file://Makefile'', description = ''(makefile)'' \<rparr>
     \<in> set (picks example_localize example_URI_file example_modeService)
   \<and> getExtensions example_modeService ''Makefile'' = Some []
   \<and> getFilenames example_modeService ''Makefile'' = Some [''Makefile'']
   \<and> Some ''file://Makefile'' = Some (example_URI_file ''Makefile'')
   \<and> \<lparr> label = ''Go'', resource = None, description = ''(go)'' \<rparr>
     \<in> set (picks example_localize example_URI_file example_modeService)
   \<and> getExtensions example_modeService ''Go'' = None
   \<and> getFilenames example_modeService ''Go'' = Some []"
proof -
  let ?ts = "\<lparr> label = ''TypeScript'', resource = Some ''file://.ts'', description = ''(typescript)'' \<rparr>"
  let ?mk = "\<lparr> label = ''Makefile'', resource = Some ''file://Makefile'', description = ''(makefile)'' \<rparr>"
  let ?go = "\<lparr> label = ''Go'', resource = (None :: string option), description = ''(go)'' \<rparr>"
  have ts: "?ts \<in> set (picks example_localize example_URI_file example_modeService)"
    and mk: "?mk \<in> set (picks example_localize example_URI_file example_modeService)"
    and go: "?go \<in> set (picks example_localize example_URI_file example_modeService)"
    by (simp_all add: example_picks)
  have reg:
    "getExtensions example_modeService ''TypeScript'' = Some [''.ts'', ''.tsx'']"
    "getExtensions example_modeService ''Makefile'' = Some []"
    "getFilenames example_modeService ''Makefile'' = Some [''Makefile'']"
    "getExtensions example_modeService ''Go'' = None"
    "getFilenames example_modeService ''Go'' = Some []"
    by (simp_all add: example_modeService_def)
  from representative_resource [OF ts, of "''.ts''" "[''.tsx'']"]
       representative_resource [OF mk, of _ _ "''Makefile''" "[]"]
       representative_resource [OF go]
       ts mk go reg
  show ?thesis by simp
qed

subsection \<open>The description of an entry\<close>

text \<open>
  Claim C2. Every entry that \<open>run\<close> builds is labelled with a registered language
  name, and its description is the localized \<open>({0})\<close> filled with the mode
  identifier the registry gives for that language: the answer of
  \<open>getModeIdForLanguageName\<close>, which the code asks with the lower-cased name.
  Whenever that answer is the language of the mode the registry creates for the label,
  which is the identifier the second half of \<open>run\<close> configures, the description
  shows that identifier.
\<close>

theorem description_annotates_mode_identifier:
  "e \<in> set (picks localize URI_file modeService) \<Longrightarrow>
     label e \<in> set (getRegisteredLanguageNames modeService)
     \<and> description e =
         localize ''languageDescriptionConfigured'' ''({0})''
           [getModeIdForLanguageName modeService (toLowerCase (label e))]
     \<and> (getOrCreateModeByLanguageName modeService (label e) = Resolved mode
         \<and> getModeIdForLanguageName modeService (toLowerCase (label e))
             = Some (language (getLanguageIdentifier mode)) \<longrightarrow>
         description e =
           localize ''languageDescriptionConfigured'' ''({0})''
             [Some (language (getLanguageIdentifier mode))])"
  by (simp add: picks_entry)

theorem description_annotates_mode_identifier_witness:
  "\<lparr> label = ''TypeScript'', resource = Some ''file://.ts'', description = ''(typescript)'' \<rparr>
     \<in> set (picks example_localize example_URI_file example_modeService)
   \<and> getOrCreateModeByLanguageName example_modeService ''TypeScript''
       = Resolved \<lparr> getLanguageIdentifier = \<lparr> language = ''typescript'' \<rparr> \<rparr>
   \<and> getModeIdForLanguageName example_modeService (toLowerCase ''TypeScript'')
       = Some ''typescript''
   \<and> ''(typescript)'' =
       example_localize ''languageDescriptionConfigured'' ''({0})'' [Some ''typescript'']
   \<and> example_localize ''languageDescriptionConfigured'' ''({0})'' [Some ''typescript'']
       = ''('' @ ''typescript'' @ '')''"
proof -
  let ?e = "\<lparr> label = ''TypeScript'', resource = Some ''file://.ts'', description = ''(typescript)'' \<rparr>"
  let ?m = "\<lparr> getLanguageIdentifier = \<lparr> language = ''typescript'' \<rparr> \<rparr>"
  have h: "?e \<in> set (picks example_localize example_URI_file example_modeService)"
    by (simp add: example_picks)
  have m: "getOrCreateModeByLanguageName example_modeService ''TypeScript'' = Resolved ?m"
    by (simp add: example_modeService_def)
  have i: "getModeIdForLanguageName example_modeService (toLowerCase ''TypeScript'')
             = Some ''typescript''"
    by (simp add: example_modeService_def lower_examples)
  have k: "getOrCreateModeByLanguageName example_modeService (label ?e) = Resolved ?m
           \<and> getModeIdForLanguageName example_modeService (toLowerCase (label ?e))
               = Some (language (getLanguageIdentifier ?m))"
    using m i by simp
  have f: "example_localize ''languageDescriptionConfigured'' ''({0})'' [Some ''typescript'']
             = ''('' @ ''typescript'' @ '')''"
    by (simp add: example_localize_def)
  note t = description_annotates_mode_identifier
    [OF h, of ?m, THEN conjunct2, THEN conjunct2, rule_format, OF k]
  from t h m i f show ?thesis by simp
qed

subsection \<open>When the language configurator configures\<close>

text \<open>
  Claim C5, amended. \<open>run\<close> calls \<open>configureSettingsForLanguage\<close> if and only if
  the picker resolves to a selection and \<open>getOrCreateModeByLanguageName\<close> resolves
  for the selected label. The four outcomes, each with all the calls of \<open>run\<close> and
  the promise it returns: when the picker resolves to no selection, the only call is
  the one that showed the picker, and \<open>run\<close> resolves to \<open>undefined\<close>; when the
  picker resolves to a selection and the mode of its label resolves,
  \<open>configureSettingsForLanguage\<close> is called once, with the language of that mode's
  language identifier, and \<open>run\<close> returns what that call returns; when the picker
  resolves to a selection and the promise of the mode is rejected,
  \<open>configureSettingsForLanguage\<close> is not called and \<open>run\<close> is rejected with the
  same reason; when the promise of the picker is rejected, nothing more is called and
  \<open>run\<close> is rejected with the same reason.
\<close>

theorem configure_iff_selected_and_mode_resolved:
  "(language_calls (fst (ConfigureLanguageBasedSettingsAction_run localize URI_file modeService
                          quickOpenService preferencesService)) \<noteq> []
      \<longleftrightarrow> (\<exists>selected mode.
             shown localize URI_file modeService quickOpenService = Resolved (Some selected)
             \<and> getOrCreateModeByLanguageName modeService (label selected) = Resolved mode))
   \<and> (shown localize URI_file modeService quickOpenService = Resolved None \<longrightarrow>
        ConfigureLanguageBasedSettingsAction_run localize URI_file modeService quickOpenService
            preferencesService =
          ([Call_pick (picks localize URI_file modeService)
              \<lparr> placeHolder = localize ''pickLanguage'' ''Select Language'' [] \<rparr>],
           Resolved Undefined))
   \<and> (shown localize URI_file modeService quickOpenService = Resolved (Some selected)
        \<and> getOrCreateModeByLanguageName modeService (label selected) = Resolved mode \<longrightarrow>
        language_calls (fst (ConfigureLanguageBasedSettingsAction_run localize URI_file modeService
                               quickOpenService preferencesService))
          = [language (getLanguageIdentifier mode)]
        \<and> snd (ConfigureLanguageBasedSettingsAction_run localize URI_file modeService
                  quickOpenService preferencesService)
          = map_TPromise Value
              (configureSettingsForLanguage preferencesService
                 (language (getLanguageIdentifier mode)))
        \<and> fst (ConfigureLanguageBasedSettingsAction_run localize URI_file modeService
                  quickOpenService preferencesService)
          = [Call_pick (picks localize URI_file modeService)
               \<lparr> placeHolder = localize ''pickLanguage'' ''Select Language'' [] \<rparr>,
             Call_getOrCreateModeByLanguageName (label selected),
             Call_configureSettingsForLanguage (language (getLanguageIdentifier mode))])
   \<and> (shown localize URI_file modeService quickOpenService = Resolved (Some selected)
        \<and> getOrCreateModeByLanguageName modeService (label selected) = Rejected reason \<longrightarrow>
        ConfigureLanguageBasedSettingsAction_run localize URI_file modeService quickOpenService
            preferencesService =
          ([Call_pick (picks localize URI_file modeService)
              \<lparr> placeHolder = localize ''pickLanguage'' ''Select Language'' [] \<rparr>,
            Call_getOrCreateModeByLanguageName (label selected)],
           Rejected reason))
   \<and> (shown localize URI_file modeService quickOpenService = Rejected reason \<longrightarrow>
        ConfigureLanguageBasedSettingsAction_run localize URI_file modeService quickOpenService
            preferencesService =
          ([Call_pick (picks localize URI_file modeService)
              \<lparr> placeHolder = localize ''pickLanguage'' ''Select Language'' [] \<rparr>],
           Rejected reason))"
proof (intro conjI impI)
  show "language_calls (fst (ConfigureLanguageBasedSettingsAction_run localize URI_file modeService
                          quickOpenService preferencesService)) \<noteq> []
      \<longleftrightarrow> (\<exists>selected mode.
             shown localize URI_file modeService quickOpenService = Resolved (Some selected)
             \<and> getOrCreateModeByLanguageName modeService (label selected) = Resolved mode)"
    unfolding language_calls_run
    by (simp split: TPromise.split option.split)
next
  assume "shown localize URI_file modeService quickOpenService = Resolved None"
  then show "ConfigureLanguageBasedSettingsAction_run localize URI_file modeService quickOpenService
            preferencesService =
          ([Call_pick (picks localize URI_file modeService)
              \<lparr> placeHolder = localize ''pickLanguage'' ''Select Language'' [] \<rparr>],
           Resolved Undefined)"
    by (simp add: prod_eq_iff language_run_calls language_run_result shown_def Let_def)
next
  assume h: "shown localize URI_file modeService quickOpenService = Resolved (Some selected)
        \<and> getOrCreateModeByLanguageName modeService (label selected) = Resolved mode"
  then show "language_calls (fst (ConfigureLanguageBasedSettingsAction_run localize URI_file
                modeService quickOpenService preferencesService))
          = [language (getLanguageIdentifier mode)]"
    by (simp add: language_calls_run)
  from h show "snd (ConfigureLanguageBasedSettingsAction_run localize URI_file modeService
                  quickOpenService preferencesService)
          = map_TPromise Value
              (configureSettingsForLanguage preferencesService
                 (language (getLanguageIdentifier mode)))"
    by (simp add: language_run_result)
  from h show "fst (ConfigureLanguageBasedSettingsAction_run localize URI_file modeService
                  quickOpenService preferencesService)
          = [Call_pick (picks localize URI_file modeService)
               \<lparr> placeHolder = localize ''pickLanguage'' ''Select Language'' [] \<rparr>,
             Call_getOrCreateModeByLanguageName (label selected),
             Call_configureSettingsForLanguage (language (getLanguageIdentifier mode))]"
    by (simp add: language_run_calls shown_def Let_def)
next
  assume "shown localize URI_file modeService quickOpenService = Resolved (Some selected)
        \<and> getOrCreateModeByLanguageName modeService (label selected) = Rejected reason"
  then show "ConfigureLanguageBasedSettingsAction_run localize URI_file modeService quickOpenService
            preferencesService =
          ([Call_pick (picks localize URI_file modeService)
              \<lparr> placeHolder = localize ''pickLanguage'' ''Select Language'' [] \<rparr>,
            Call_getOrCreateModeByLanguageName (label selected)],
           Rejected reason)"
    by (simp add: prod_eq_iff language_run_calls language_run_result shown_def Let_def)
next
  assume "shown localize URI_file modeService quickOpenService = Rejected reason"
  then show "ConfigureLanguageBasedSettingsAction_run localize URI_file modeService quickOpenService
            preferencesService =
          ([Call_pick (picks localize URI_file modeService)
              \<lparr> placeHolder = localize ''pickLanguage'' ''Select Language'' [] \<rparr>],
           Rejected reason)"
    by (simp add: prod_eq_iff language_run_calls language_run_result shown_def Let_def)
qed

theorem configure_iff_selected_and_mode_resolved_witness:
  "shown example_localize example_URI_file example_modeService cancelling_quickOpenService
     = Resolved None
   \<and> ConfigureLanguageBasedSettingsAction_run example_localize example_URI_file example_modeService
       cancelling_quickOpenService example_preferencesService
     = ([Call_pick (picks example_localize example_URI_file example_modeService)
           \<lparr> placeHolder = ''Select Language'' \<rparr>], Resolved Undefined)
   \<and> shown example_localize example_URI_file example_modeService selecting_quickOpenService
     = Resolved (Some \<lparr> label = ''C'', resource = Some ''file://.c'', description = ''(c)'' \<rparr>)
   \<and> getOrCreateModeByLanguageName example_modeService ''C''
     = Resolved \<lparr> getLanguageIdentifier = \<lparr> language = ''c'' \<rparr> \<rparr>
   \<and> ConfigureLanguageBasedSettingsAction_run example_localize example_URI_file
         example_modeService selecting_quickOpenService example_preferencesService
     = ([Call_pick (picks example_localize example_URI_file example_modeService)
           \<lparr> placeHolder = ''Select Language'' \<rparr>,
         Call_getOrCreateModeByLanguageName ''C'',
         Call_configureSettingsForLanguage ''c''], Resolved (Value ()))
   \<and> language_calls (fst (ConfigureLanguageBasedSettingsAction_run example_localize example_URI_file
         example_modeService selecting_quickOpenService example_preferencesService)) = [''c'']
   \<and> shown example_localize example_URI_file failing_modeService selecting_quickOpenService
     = Resolved (Some \<lparr> label = ''C'', resource = Some ''file://.c'', description = ''(c)'' \<rparr>)
   \<and> getOrCreateModeByLanguageName failing_modeService ''C'' = Rejected ''Activation failed''
   \<and> ConfigureLanguageBasedSettingsAction_run example_localize example_URI_file
         failing_modeService selecting_quickOpenService example_preferencesService
     = ([Call_pick (picks example_localize example_URI_file failing_modeService)
           \<lparr> placeHolder = ''Select Language'' \<rparr>,
         Call_getOrCreateModeByLanguageName ''C''], Rejected ''Activation failed'')
   \<and> shown example_localize example_URI_file example_modeService rejecting_quickOpenService
     = Rejected ''Picker failed''
   \<and> ConfigureLanguageBasedSettingsAction_run example_localize example_URI_file
         example_modeService rejecting_quickOpenService example_preferencesService
     = ([Call_pick (picks example_localize example_URI_file example_modeService)
           \<lparr> placeHolder = ''Select Language'' \<rparr>], Rejected ''Picker failed'')"
proof -
  let ?c = "\<lparr> label = ''C'', resource = Some ''file://.c'', description = ''(c)'' \<rparr>"
  let ?m = "\<lparr> getLanguageIdentifier = \<lparr> language = ''c'' \<rparr> \<rparr>"
  have m: "getOrCreateModeByLanguageName example_modeService ''C'' = Resolved ?m"
    by (simp add: example_modeService_def)
  have sel: "shown example_localize example_URI_file example_modeService selecting_quickOpenService
               = Resolved (Some ?c)
             \<and> getOrCreateModeByLanguageName example_modeService (label ?c) = Resolved ?m"
    using m by (simp add: example_shown)
  have r: "getOrCreateModeByLanguageName failing_modeService ''C'' = Rejected ''Activation failed''"
    by (simp add: failing_modeService_def)
  have rej: "shown example_localize example_URI_file failing_modeService selecting_quickOpenService
               = Resolved (Some ?c)
             \<and> getOrCreateModeByLanguageName failing_modeService (label ?c)
                 = Rejected ''Activation failed''"
    using r by (simp add: failing_shown)
  have q: "shown example_localize example_URI_file example_modeService rejecting_quickOpenService
             = Rejected ''Picker failed''"
    by (simp add: shown_def rejecting_quickOpenService_def)
  have p: "configureSettingsForLanguage example_preferencesService ''c'' = Resolved ()"
    "example_localize ''pickLanguage'' ''Select Language'' [] = ''Select Language''"
    by (simp_all add: example_preferencesService_def example_localize_def)
  note t = configure_iff_selected_and_mode_resolved
    [where localize = example_localize and URI_file = example_URI_file
       and preferencesService = example_preferencesService]
  note cancelled = t [where modeService = example_modeService
      and quickOpenService = cancelling_quickOpenService,
    THEN conjunct2, THEN conjunct1, rule_format, OF example_shown(2)]
  note selected = t [where modeService = example_modeService
      and quickOpenService = selecting_quickOpenService and selected = ?c and mode = ?m,
    THEN conjunct2, THEN conjunct2, THEN conjunct1, rule_format, OF sel]
  note mode_rejected = t [where modeService = failing_modeService
      and quickOpenService = selecting_quickOpenService and selected = ?c
      and reason = "''Activation failed''",
    THEN conjunct2, THEN conjunct2, THEN conjunct2, THEN conjunct1, rule_format, OF rej]
  note picker_rejected = t [where modeService = example_modeService
      and quickOpenService = rejecting_quickOpenService and reason = "''Picker failed''",
    THEN conjunct2, THEN conjunct2, THEN conjunct2, THEN conjunct2, rule_format, OF q]
  from cancelled selected mode_rejected picker_rejected m r q p
  show ?thesis by (simp add: example_shown failing_shown prod_eq_iff language_calls_def)
qed

text \<open>
  The claim as written makes a selection enough. With the registry whose modes cannot
  be created, the user selects \<open>C\<close>, the promise of the mode is rejected, the
  \<open>then\<close> on it never runs, and \<open>configureSettingsForLanguage\<close> is not called:
  \<open>run\<close> is rejected with the registry's reason.
\<close>

theorem configure_iff_selected_counterexample:
  "shown example_localize example_URI_file failing_modeService selecting_quickOpenService
     = Resolved (Some \<lparr> label = ''C'', resource = Some ''file://.c'', description = ''(c)'' \<rparr>)
   \<and> getOrCreateModeByLanguageName failing_modeService ''C'' = Rejected ''Activation failed''
   \<and> language_calls (fst (ConfigureLanguageBasedSettingsAction_run example_localize example_URI_file
         failing_modeService selecting_quickOpenService example_preferencesService)) = []
   \<and> snd (ConfigureLanguageBasedSettingsAction_run example_localize example_URI_file
         failing_modeService selecting_quickOpenService example_preferencesService)
     = Rejected ''Activation failed''"
  by (simp add: language_calls_run language_run_result failing_shown)
     (simp add: failing_modeService_def)

subsection \<open>When the folder settings action opens folder settings\<close>

lemma folder_run_calls:
  "fst (OpenFolderSettingsAction_run CMD this cs ps) =
     Call_executeCommand CMD #
       (case executeCommand cs CMD of
          Resolved (Some folder) \<Rightarrow> [Call_openFolderSettings (uri folder)]
        | _ \<Rightarrow> [])"
  by (simp add: OpenFolderSettingsAction_run_def then_promise_calls
      split: TPromise.split option.split)

lemma folder_run_result:
  "snd (OpenFolderSettingsAction_run CMD this cs ps) =
     (case executeCommand cs CMD of
        Resolved (Some folder) \<Rightarrow> map_TPromise Value (openFolderSettings ps (uri folder))
      | Resolved None \<Rightarrow> Resolved Null
      | Rejected e \<Rightarrow> Rejected e)"
  by (simp add: OpenFolderSettingsAction_run_def then_promise_result
      split: TPromise.split option.split)

text \<open>
  Claim C6. \<open>run\<close> of the folder settings action calls \<open>openFolderSettings\<close> if
  and only if the pick-workspace-folder command resolves to a folder. When the command
  resolves to none, the only call of \<open>run\<close> is the command itself and \<open>run\<close>
  resolves to \<open>null\<close>. When it resolves to a folder, \<open>openFolderSettings\<close> is
  called with that folder's \<open>uri\<close> and \<open>run\<close> returns what that call returns.
\<close>

theorem open_folder_settings_iff_folder_picked:
  "(folder_calls (fst (OpenFolderSettingsAction_run PICK_WORKSPACE_FOLDER_COMMAND this
                         commandService preferencesService)) \<noteq> []
      \<longleftrightarrow> (\<exists>folder. executeCommand commandService PICK_WORKSPACE_FOLDER_COMMAND
                      = Resolved (Some folder)))
   \<and> (executeCommand commandService PICK_WORKSPACE_FOLDER_COMMAND = Resolved None \<longrightarrow>
        OpenFolderSettingsAction_run PICK_WORKSPACE_FOLDER_COMMAND this commandService
            preferencesService
          = ([Call_executeCommand PICK_WORKSPACE_FOLDER_COMMAND], Resolved Null))
   \<and> (executeCommand commandService PICK_WORKSPACE_FOLDER_COMMAND = Resolved (Some folder) \<longrightarrow>
        OpenFolderSettingsAction_run PICK_WORKSPACE_FOLDER_COMMAND this commandService
            preferencesService
          = ([Call_executeCommand PICK_WORKSPACE_FOLDER_COMMAND,
              Call_openFolderSettings (uri folder)],
             map_TPromise Value (openFolderSettings preferencesService (uri folder))))"
  by (cases "executeCommand commandService PICK_WORKSPACE_FOLDER_COMMAND")
     (auto simp add: prod_eq_iff folder_run_calls folder_run_result folder_calls_def
       split: option.split)

theorem open_folder_settings_iff_folder_picked_witness:
  "executeCommand cancelling_commandService ''_workbench.pickWorkspaceFolder'' = Resolved None
   \<and> OpenFolderSettingsAction_run ''_workbench.pickWorkspaceFolder''
        (the (objects (snd folder_action_example) 0)) cancelling_commandService
        example_preferencesService
      = ([Call_executeCommand ''_workbench.pickWorkspaceFolder''], Resolved Null)
   \<and> executeCommand selecting_commandService ''_workbench.pickWorkspaceFolder''
      = Resolved (Some \<lparr> uri = ''/home/project'' \<rparr>)
   \<and> OpenFolderSettingsAction_run ''_workbench.pickWorkspaceFolder''
        (the (objects (snd folder_action_example) 0)) selecting_commandService
        example_preferencesService
      = ([Call_executeCommand ''_workbench.pickWorkspaceFolder'',
          Call_openFolderSettings ''/home/project''], Resolved (Value ()))"
proof -
  have c: "executeCommand cancelling_commandService ''_workbench.pickWorkspaceFolder''
             = Resolved None"
    by (simp add: cancelling_commandService_def)
  have s: "executeCommand selecting_commandService ''_workbench.pickWorkspaceFolder''
             = Resolved (Some \<lparr> uri = ''/home/project'' \<rparr>)"
    by (simp add: selecting_commandService_def)
  have p: "openFolderSettings example_preferencesService ''/home/project'' = Resolved ()"
    by (simp add: example_preferencesService_def)
  note t = open_folder_settings_iff_folder_picked
    [where this = "the (objects (snd folder_action_example) 0)"
       and preferencesService = example_preferencesService]
  note cancelled = t [THEN conjunct2, THEN conjunct1, rule_format, OF c]
  note selected = t [THEN conjunct2, THEN conjunct2, rule_format, OF s]
  from cancelled selected c s p show ?thesis by simp
qed

subsection \<open>\<open>run\<close> does not read the enabled flag\<close>

text \<open>
  Claim C9. Whatever the enabled flag of the object is set to, \<open>run\<close> of the
  workspace settings action and \<open>run\<close> of the folder settings action make the same
  calls and return the same promise. On a disabled action, the first still calls
  \<open>openWorkspaceSettings\<close>, and the second still executes the pick-folder command
  and, when that resolves to a folder, calls \<open>openFolderSettings\<close> with its
  \<open>uri\<close>.
\<close>

theorem run_ignores_enabled:
  "OpenWorkspaceSettingsAction_run (this\<lparr> enabled := e \<rparr>) preferencesService
     = OpenWorkspaceSettingsAction_run this preferencesService
   \<and> OpenWorkspaceSettingsAction_run (this\<lparr> enabled := False \<rparr>) preferencesService
     = ([Call_openWorkspaceSettings],
        map_TPromise Value (openWorkspaceSettings preferencesService))
   \<and> OpenFolderSettingsAction_run PICK_WORKSPACE_FOLDER_COMMAND (this\<lparr> enabled := e \<rparr>)
        commandService preferencesService
     = OpenFolderSettingsAction_run PICK_WORKSPACE_FOLDER_COMMAND this
        commandService preferencesService
   \<and> fst (OpenFolderSettingsAction_run PICK_WORKSPACE_FOLDER_COMMAND (this\<lparr> enabled := False \<rparr>)
          commandService preferencesService)
     = Call_executeCommand PICK_WORKSPACE_FOLDER_COMMAND #
         (case executeCommand commandService PICK_WORKSPACE_FOLDER_COMMAND of
            Resolved (Some folder) \<Rightarrow> [Call_openFolderSettings (uri folder)]
          | _ \<Rightarrow> [])"
  by (simp add: folder_run_calls)
     (simp add: OpenWorkspaceSettingsAction_run_def OpenFolderSettingsAction_run_def)

subsection \<open>Disposing twice\<close>

lemma fold_release_objects [simp]: "objects (fold release ds w) = objects w"
  by (induction ds arbitrary: w) (simp_all add: release_def)

lemma fold_release_nextObject [simp]: "nextObject (fold release ds w) = nextObject w"
  by (induction ds arbitrary: w) (simp_all add: release_def)

lemma fold_release_released [simp]: "released (fold release ds w) = released w @ ds"
  by (induction ds arbitrary: w) (simp_all add: release_def)

lemma workspace_dispose_result:
  "OpenWorkspaceSettingsAction_dispose sd a w =
     (case objects w a of
        None \<Rightarrow> w
      | Some obj \<Rightarrow>
          (fold release (disposables obj) w)
            \<lparr> objects := (objects w)(a \<mapsto>
                 obj\<lparr> disposables := [], inherited := sd (inherited obj) \<rparr>) \<rparr>)"
  by (simp add: OpenWorkspaceSettingsAction_dispose_def dispose_all_def split: option.split)

lemma folder_dispose_result:
  "OpenFolderSettingsAction_dispose sd a w =
     (case objects w a of
        None \<Rightarrow> w
      | Some obj \<Rightarrow>
          (fold release (disposables obj) w)
            \<lparr> objects := (objects w)(a \<mapsto>
                 obj\<lparr> disposables := [], inherited := sd (inherited obj) \<rparr>) \<rparr>)"
  by (simp add: OpenFolderSettingsAction_dispose_def dispose_all_def split: option.split)

lemma dispose_twice:
  fixes D :: "('b \<Rightarrow> 'b) \<Rightarrow> nat \<Rightarrow> ('uri, 'b) workbench \<Rightarrow> ('uri, 'b) workbench"
  assumes D: "\<And>w. D sd a w =
     (case objects w a of
        None \<Rightarrow> w
      | Some obj \<Rightarrow>
          (fold release (disposables obj) w)
            \<lparr> objects := (objects w)(a \<mapsto>
                 obj\<lparr> disposables := [], inherited := sd (inherited obj) \<rparr>) \<rparr>)"
  shows "released (D sd a (D sd a w)) = released (D sd a w)"
    and "workspaceContextService (D sd a (D sd a w)) = workspaceContextService (D sd a w)"
    and "disposables_at (D sd a (D sd a w)) a = disposables_at (D sd a w) a"
    and "(\<forall>b. sd (sd b) = sd b) \<Longrightarrow> D sd a (D sd a w) = D sd a w"
proof -
  show "released (D sd a (D sd a w)) = released (D sd a w)"
    by (cases "objects w a") (simp_all add: D)
  show "workspaceContextService (D sd a (D sd a w)) = workspaceContextService (D sd a w)"
    by (cases "objects w a") (simp_all add: D)
  show "disposables_at (D sd a (D sd a w)) a = disposables_at (D sd a w) a"
    by (cases "objects w a") (simp_all add: D disposables_at_def)
  show "D sd a (D sd a w) = D sd a w" if "\<forall>b. sd (sd b) = sd b"
    using that by (cases "objects w a") (simp_all add: D)
qed

lemmas dispose_example_defs =
  OpenWorkspaceSettingsAction_dispose_def OpenFolderSettingsAction_dispose_def
  dispose_all_def release_def unsubscribe_def

text \<open>
  Claim C8. For both gated actions, \<open>dispose\<close> returns a workbench on every
  workbench (it has no failing branch), and a second \<open>dispose\<close> right after the
  first calls \<open>dispose()\<close> on no subscription (the record of released subscriptions
  does not grow), leaves the listeners of the service as they are, and leaves the
  object's \<open>disposables\<close> as the first left them. When the inherited teardown
  \<open>super.dispose()\<close> is itself idempotent, the second \<open>dispose\<close> changes
  nothing at all.
\<close>

theorem dispose_is_idempotent:
  "(let w1 = OpenWorkspaceSettingsAction_dispose super_dispose a w;
        w2 = OpenWorkspaceSettingsAction_dispose super_dispose a w1
    in released w2 = released w1
       \<and> workspaceContextService w2 = workspaceContextService w1
       \<and> disposables_at w2 a = disposables_at w1 a
       \<and> ((\<forall>b. super_dispose (super_dispose b) = super_dispose b) \<longrightarrow> w2 = w1))
   \<and> (let v1 = OpenFolderSettingsAction_dispose super_dispose a w;
          v2 = OpenFolderSettingsAction_dispose super_dispose a v1
      in released v2 = released v1
         \<and> workspaceContextService v2 = workspaceContextService v1
         \<and> disposables_at v2 a = disposables_at v1 a
         \<and> ((\<forall>b. super_dispose (super_dispose b) = super_dispose b) \<longrightarrow> v2 = v1))"
  unfolding Let_def
  by (intro conjI impI dispose_twice [where D = OpenWorkspaceSettingsAction_dispose]
      dispose_twice [where D = OpenFolderSettingsAction_dispose]
      workspace_dispose_result folder_dispose_result)

theorem dispose_is_idempotent_witness:
  "released (OpenWorkspaceSettingsAction_dispose (\<lambda>d. True) 0 (snd workspace_action_example))
     = [Subscription onDidChangeWorkbenchState 0]
   \<and> listeners (workspaceContextService
        (OpenWorkspaceSettingsAction_dispose (\<lambda>d. True) 0 (snd workspace_action_example))) = []
   \<and> OpenWorkspaceSettingsAction_dispose (\<lambda>d. True) 0
        (OpenWorkspaceSettingsAction_dispose (\<lambda>d. True) 0 (snd workspace_action_example))
      = OpenWorkspaceSettingsAction_dispose (\<lambda>d. True) 0 (snd workspace_action_example)
   \<and> released (OpenFolderSettingsAction_dispose (\<lambda>d. True) 0 (snd folder_action_example))
     = [Subscription onDidChangeWorkbenchState 0, Subscription onDidChangeWorkspaceFolders 1]
   \<and> listeners (workspaceContextService
        (OpenFolderSettingsAction_dispose (\<lambda>d. True) 0 (snd folder_action_example))) = []
   \<and> OpenFolderSettingsAction_dispose (\<lambda>d. True) 0
        (OpenFolderSettingsAction_dispose (\<lambda>d. True) 0 (snd folder_action_example))
      = OpenFolderSettingsAction_dispose (\<lambda>d. True) 0 (snd folder_action_example)"
proof -
  note t = dispose_is_idempotent [of "\<lambda>d. True" 0, unfolded Let_def]
  note ws = t [of "snd workspace_action_example", THEN conjunct1]
  note fs = t [of "snd folder_action_example", THEN conjunct2]
  have first:
    "released (OpenWorkspaceSettingsAction_dispose (\<lambda>d. True) 0 (snd workspace_action_example))
       = [Subscription onDidChangeWorkbenchState 0]"
    "listeners (workspaceContextService
        (OpenWorkspaceSettingsAction_dispose (\<lambda>d. True) 0 (snd workspace_action_example))) = []"
    "released (OpenFolderSettingsAction_dispose (\<lambda>d. True) 0 (snd folder_action_example))
       = [Subscription onDidChangeWorkbenchState 0, Subscription onDidChangeWorkspaceFolders 1]"
    "listeners (workspaceContextService
        (OpenFolderSettingsAction_dispose (\<lambda>d. True) 0 (snd folder_action_example))) = []"
    by (simp_all add: example_defs dispose_example_defs)
  from ws fs first show ?thesis by simp
qed

end
